theory Spec2Isabelle
  imports Main "HOL-Library.Word"
begin

section \<open>Python values\<close>

text \<open>
  A Python \<open>str\<close> is a sequence of Unicode code points and a \<open>bytes\<close> object a sequence
  of byte values; both are lists of naturals here. \<open>lit\<close> turns an ASCII literal of the
  source into its code points.
\<close>

type_synonym str = "nat list"
type_synonym bytes = "nat list"

definition lit :: "string \<Rightarrow> str" where
  "lit s = map of_char s"

text \<open>
  Truthiness of an optional sequence, as tested by \<open>if x:\<close> and \<open>if not x:\<close> in the
  source: \<open>None\<close> and the empty sequence are false, everything else is true.
\<close>

fun truthy :: "'a list option \<Rightarrow> bool" where
  "truthy None = False"
| "truthy (Some s) = (s \<noteq> [])"

text \<open>
  \<open>str.strip()\<close> removes leading and trailing whitespace, \<open>str.strip(chars)\<close> leading and
  trailing characters that occur in \<open>chars\<close>. The whitespace code points are those of
  CPython's \<open>str.isspace\<close>.
\<close>

definition py_isspace :: "nat \<Rightarrow> bool" where
  "py_isspace c =
     (c \<in> set [9, 10, 11, 12, 13, 28, 29, 30, 31, 32, 133, 160, 5760,
                8232, 8233, 8239, 8287, 12288]
      \<or> (8192 \<le> c \<and> c \<le> 8202))"

definition strip_with :: "(nat \<Rightarrow> bool) \<Rightarrow> str \<Rightarrow> str" where
  "strip_with p s = rev (dropWhile p (rev (dropWhile p s)))"

definition strip :: "str \<Rightarrow> str" where
  "strip s = strip_with py_isspace s"

definition strip_chars :: "str \<Rightarrow> str \<Rightarrow> str" where
  "strip_chars chars s = strip_with (\<lambda>c. c \<in> set chars) s"

text \<open>
  \<open>str(uuid.uuid4())\<close>: the 128-bit value of the UUID printed as 32 lower-case hexadecimal
  digits, grouped 8-4-4-4-12 with dashes.
\<close>

definition hex_digit :: "nat \<Rightarrow> nat" where
  "hex_digit d = (if d < 10 then 48 + d else 87 + d)"

fun hex_pad :: "nat \<Rightarrow> nat \<Rightarrow> str" where
  "hex_pad 0 n = []"
| "hex_pad (Suc k) n = hex_pad k (n div 16) @ [hex_digit (n mod 16)]"

definition uuid_str :: "128 word \<Rightarrow> str" where
  "uuid_str u =
     (let hex = hex_pad 32 (unat u)
      in take 8 hex @ lit ''-'' @ take 4 (drop 8 hex) @ lit ''-'' @
         take 4 (drop 12 hex) @ lit ''-'' @ take 4 (drop 16 hex) @ lit ''-'' @
         drop 20 hex)"

section \<open>The foreign library and the runtime\<close>

text \<open>
  The two C structs of the binding. A \<open>c_char_p\<close> field is \<open>None\<close> for the null pointer
  and otherwise the bytes of the C string.
\<close>

record CortexWebClient =
  config_server_url :: "bytes option"
  organization_id :: "bytes option"
  machine_id :: "bytes option"

record CortexNetworkInfo =
  instance_name :: "bytes option"
  network_name :: "bytes option"
  virtual_ipv4 :: "bytes option"
  hostname :: "bytes option"
  version :: "bytes option"

text \<open>
  Everything the wrapper calls but does not define is a field of the runtime: the four
  entry points of \<open>libeasytier_device_client\<close>, each a function of the state \<open>'l\<close> hidden
  behind the library, and the standard-library functions \<open>uuid.uuid4\<close>,
  \<open>urllib.parse.urlparse(...).path\<close>, \<open>str.encode\<close> and \<open>bytes.decode\<close>, and the
  formatting of a dictionary inside an f-string. The status codes are \<open>c_int\<close> results
  as Python sees them, integers; \<open>cortex_get_web_client_network_info\<close> returns its
  status together with the pointer it leaves in the out-parameter (\<open>None\<close> when null).
  The standard-library functions are taken as total: a URL that \<open>urlparse\<close> rejects and
  byte strings that do not decode lie outside the model.
\<close>

record 'l runtime =
  cortex_start_web_client :: "CortexWebClient \<Rightarrow> 'l \<Rightarrow> int \<times> 'l"
  cortex_stop_web_client :: "bytes \<Rightarrow> 'l \<Rightarrow> int \<times> 'l"
  cortex_get_web_client_network_info ::
    "bytes \<Rightarrow> 'l \<Rightarrow> (int \<times> CortexNetworkInfo option) \<times> 'l"
  easytier_common_get_error_msg :: "'l \<Rightarrow> bytes option \<times> 'l"
  uuid4 :: "'l \<Rightarrow> 128 word \<times> 'l"
  urlparse_path :: "str \<Rightarrow> str"
  encode :: "str \<Rightarrow> bytes"
  decode :: "bytes \<Rightarrow> str"
  format_dict :: "(string \<times> str) list \<Rightarrow> str"

text \<open>
  The file system: absolute paths as lists of components (the root is the empty list),
  each bound to a regular file with its text or to a directory.
\<close>

type_synonym path = "str list"

datatype node = File str | Dir

type_synonym filesystem = "path \<Rightarrow> node option"

datatype py_error =
  FileExistsError | NotADirectoryError | IsADirectoryError | FileNotFoundError

text \<open>
  The world outside the client object: the hidden state of the library and of the
  random source, the library calls issued so far (oldest first, each with its
  arguments and with what the library answered), the lines printed so far, and the
  file system.
\<close>

datatype lib_call =
  StartCall CortexWebClient int
| StopCall bytes int
| InfoCall bytes int "CortexNetworkInfo option"
| ErrorMsgCall "bytes option"

record 'l world =
  ext :: 'l
  calls :: "lib_call list"
  stdout :: "str list"
  fs :: filesystem

definition print :: "str list \<Rightarrow> 'l world \<Rightarrow> 'l world" where
  "print ls w = w\<lparr>stdout := stdout w @ ls\<rparr>"

text \<open>The library calls issued between an earlier world and a later one.\<close>

definition new_calls :: "'l world \<Rightarrow> 'l world \<Rightarrow> lib_call list" where
  "new_calls w w1 = drop (length (calls w)) (calls w1)"

definition lib_start :: "'l runtime \<Rightarrow> CortexWebClient \<Rightarrow> 'l world \<Rightarrow> int \<times> 'l world" where
  "lib_start rt config w =
     (let (result, e) = cortex_start_web_client rt config (ext w)
      in (result, w\<lparr>ext := e, calls := calls w @ [StartCall config result]\<rparr>))"

definition lib_stop :: "'l runtime \<Rightarrow> bytes \<Rightarrow> 'l world \<Rightarrow> int \<times> 'l world" where
  "lib_stop rt name w =
     (let (result, e) = cortex_stop_web_client rt name (ext w)
      in (result, w\<lparr>ext := e, calls := calls w @ [StopCall name result]\<rparr>))"

definition lib_info ::
  "'l runtime \<Rightarrow> bytes \<Rightarrow> 'l world \<Rightarrow> (int \<times> CortexNetworkInfo option) \<times> 'l world" where
  "lib_info rt name w =
     (let ((result, info_ptr), e) = cortex_get_web_client_network_info rt name (ext w)
      in ((result, info_ptr),
          w\<lparr>ext := e, calls := calls w @ [InfoCall name result info_ptr]\<rparr>))"

definition lib_error_msg :: "'l runtime \<Rightarrow> 'l world \<Rightarrow> bytes option \<times> 'l world" where
  "lib_error_msg rt w =
     (let (msg, e) = easytier_common_get_error_msg rt (ext w)
      in (msg, w\<lparr>ext := e, calls := calls w @ [ErrorMsgCall msg]\<rparr>))"

section \<open>EasyTierDeviceClient\<close>

text \<open>
  The wrapper object. Its \<open>lib\<close> attribute is the runtime, passed to every method; its
  only mutable attribute is \<open>instance_name\<close>.
\<close>

record EasyTierDeviceClient =
  instance_name :: "str option"

definition init :: EasyTierDeviceClient where
  "init = \<lparr>instance_name = None\<rparr>"

text \<open>The two marks that open the status lines: U+2713 and U+2717.\<close>

definition check_mark :: str where
  "check_mark = [10003]"

definition cross_mark :: str where
  "cross_mark = [10007]"

text \<open>
  The machine id that \<open>start\<close> works with: the argument, or \<open>str(uuid.uuid4())\<close> when the
  argument is \<open>None\<close>.
\<close>

definition resolve_machine_id :: "'l runtime \<Rightarrow> str option \<Rightarrow> 'l world \<Rightarrow> str \<times> 'l world" where
  "resolve_machine_id rt machine_id_arg w =
     (case machine_id_arg of
        None \<Rightarrow> (let (u, e) = uuid4 rt (ext w) in (uuid_str u, w\<lparr>ext := e\<rparr>))
      | Some m \<Rightarrow> (m, w))"

definition start ::
  "'l runtime \<Rightarrow> str \<Rightarrow> str option \<Rightarrow> EasyTierDeviceClient \<Rightarrow> 'l world
     \<Rightarrow> bool \<times> EasyTierDeviceClient \<times> 'l world" where
  "start rt url machine_id_arg self w =
     (let (mid, w1) = resolve_machine_id rt machine_id_arg w;
          config = \<lparr>config_server_url = Some (encode rt url),
                    organization_id = None,
                    machine_id = Some (encode rt mid)\<rparr>;
          (result, w2) = lib_start rt config w1
      in if result = 0 then
           (let parsed_path = urlparse_path rt url;
                name = strip_chars (lit ''/'') parsed_path
            in (True, self\<lparr>instance_name := Some name\<rparr>,
                print [check_mark @ lit '' Web client started successfully'',
                       lit ''  Organization ID: '' @ name,
                       lit ''  Machine ID: '' @ mid,
                       lit ''  Config Server: '' @ url] w2))
         else
           (let (error_msg, w3) = lib_error_msg rt w2
            in (False, self,
                (if truthy error_msg
                 then print [cross_mark @ lit '' Failed to start web client: '' @
                             decode rt (the error_msg)] w3
                 else w3))))"

definition stop ::
  "'l runtime \<Rightarrow> EasyTierDeviceClient \<Rightarrow> 'l world \<Rightarrow> bool \<times> EasyTierDeviceClient \<times> 'l world" where
  "stop rt self w =
     (if \<not> truthy (instance_name self) then
        (False, self, print [lit ''No active instance to stop''] w)
      else
        (let (result, w1) = lib_stop rt (encode rt (the (instance_name self))) w
         in if result = 0 then
              (True, self\<lparr>instance_name := None\<rparr>,
               print [check_mark @ lit '' Web client stopped''] w1)
            else
              (False, self, print [cross_mark @ lit '' Failed to stop web client''] w1)))"

text \<open>
  A field of the snapshot: \<open>x.decode() if x else ""\<close>. A null pointer and an empty C
  string both give the empty string.
\<close>

definition field_text :: "'l runtime \<Rightarrow> bytes option \<Rightarrow> str" where
  "field_text rt x = (if truthy x then decode rt (the x) else [])"

text \<open>
  The returned dictionary is kept as the list of its items in insertion order.
\<close>

type_synonym dict = "(string \<times> str) list"

definition get_network_info ::
  "'l runtime \<Rightarrow> EasyTierDeviceClient \<Rightarrow> 'l world \<Rightarrow> dict option \<times> 'l world" where
  "get_network_info rt self w =
     (if \<not> truthy (instance_name self) then (None, w)
      else
        (let ((result, info_ptr), w1) = lib_info rt (encode rt (the (instance_name self))) w
         in if result = 0 \<and> info_ptr \<noteq> None then
              (let info = the info_ptr
               in (Some
                     [(''instance_name'', field_text rt (CortexNetworkInfo.instance_name info)),
                      (''network_name'', field_text rt (network_name info)),
                      (''virtual_ipv4'', field_text rt (virtual_ipv4 info)),
                      (''hostname'', field_text rt (hostname info)),
                      (''version'', field_text rt (version info))], w1))
            else (None, w1)))"

text \<open>
  A host program drives the client through a sequence of method calls; \<open>run\<close> performs
  them in order and records what each returned.
\<close>

datatype method_call = Start str "str option" | Stop | GetNetworkInfo

datatype outcome = Returned bool | Info "dict option"

definition exec ::
  "'l runtime \<Rightarrow> method_call \<Rightarrow> EasyTierDeviceClient \<Rightarrow> 'l world
     \<Rightarrow> outcome \<times> EasyTierDeviceClient \<times> 'l world" where
  "exec rt c self w =
     (case c of
        Start url mid \<Rightarrow> (let (b, self1, w1) = start rt url mid self w in (Returned b, self1, w1))
      | Stop \<Rightarrow> (let (b, self1, w1) = stop rt self w in (Returned b, self1, w1))
      | GetNetworkInfo \<Rightarrow> (let (d, w1) = get_network_info rt self w in (Info d, self, w1)))"

fun run ::
  "'l runtime \<Rightarrow> method_call list \<Rightarrow> EasyTierDeviceClient \<Rightarrow> 'l world
     \<Rightarrow> (method_call \<times> outcome) list \<times> EasyTierDeviceClient \<times> 'l world" where
  "run rt [] self w = ([], self, w)"
| "run rt (c # cs) self w =
     (let (r, self1, w1) = exec rt c self w;
          (rs, self2, w2) = run rt cs self1 w1
      in ((c, r) # rs, self2, w2))"

text \<open>A call of \<open>start\<close> that returned \<open>True\<close>.\<close>

fun started :: "method_call \<times> outcome \<Rightarrow> bool" where
  "started (Start url mid, Returned b) = b"
| "started other = False"


fun inactive :: "method_call \<times> outcome \<Rightarrow> bool" where
  "inactive (Stop, r) = (r = Returned False)"
| "inactive (GetNetworkInfo, r) = (r = Info None)"
| "inactive (Start url mid, r) = True"


section \<open>The file system operations used by main\<close>

definition path_exists :: "filesystem \<Rightarrow> path \<Rightarrow> bool" where
  "path_exists f p = (p = [] \<or> f p \<noteq> None)"

definition isdir :: "filesystem \<Rightarrow> path \<Rightarrow> bool" where
  "isdir f p = (p = [] \<or> f p = Some Dir)"

definition dirname :: "path \<Rightarrow> path" where
  "dirname p = butlast p"

text \<open>\<open>open(p, 'r')\<close> followed by \<open>read()\<close>.\<close>

definition read_text :: "filesystem \<Rightarrow> path \<Rightarrow> py_error + str" where
  "read_text f p =
     (if p = [] then Inl IsADirectoryError
      else case f p of
             None \<Rightarrow> Inl FileNotFoundError
           | Some Dir \<Rightarrow> Inl IsADirectoryError
           | Some (File content) \<Rightarrow> Inr content)"

text \<open>
  \<open>os.mkdir(p)\<close> inside \<open>os.makedirs(..., exist_ok=True)\<close>: an existing directory is
  accepted, anything else that stands in the way is an error.
\<close>

definition mkdir_exist_ok :: "path \<Rightarrow> filesystem \<Rightarrow> py_error + filesystem" where
  "mkdir_exist_ok p f =
     (if path_exists f p then (if isdir f p then Inr f else Inl FileExistsError)
      else if isdir f (dirname p) then Inr (f(p \<mapsto> Dir))
      else if path_exists f (dirname p) then Inl NotADirectoryError
      else Inl FileNotFoundError)"

text \<open>
  \<open>os.makedirs(d, exist_ok=True)\<close> restricted to the first \<open>n\<close> components of \<open>d\<close>: the
  parent is created first unless it exists, then the directory itself.
\<close>

fun makedirs_upto :: "nat \<Rightarrow> path \<Rightarrow> filesystem \<Rightarrow> py_error + filesystem" where
  "makedirs_upto 0 d f = Inr f"
| "makedirs_upto (Suc n) d f =
     (case (if path_exists f (take n d) then Inr f else makedirs_upto n d f) of
        Inl e \<Rightarrow> Inl e
      | Inr f1 \<Rightarrow> mkdir_exist_ok (take (Suc n) d) f1)"

definition makedirs :: "path \<Rightarrow> filesystem \<Rightarrow> py_error + filesystem" where
  "makedirs d f = makedirs_upto (length d) d f"

text \<open>\<open>open(p, 'w')\<close> creates the file or truncates it; \<open>write\<close> appends to it.\<close>

definition open_w :: "path \<Rightarrow> filesystem \<Rightarrow> py_error + filesystem" where
  "open_w p f =
     (if isdir f p then Inl IsADirectoryError
      else if isdir f (dirname p) then Inr (f(p \<mapsto> File []))
      else if path_exists f (dirname p) then Inl NotADirectoryError
      else Inl FileNotFoundError)"

definition write_text :: "path \<Rightarrow> str \<Rightarrow> filesystem \<Rightarrow> filesystem" where
  "write_text p s f =
     f(p \<mapsto> File ((case f p of Some (File content) \<Rightarrow> content | _ \<Rightarrow> []) @ s))"

text \<open>
  File system operations one at a time, so that the states between them can be
  inspected: \<open>fs_run\<close> returns the state after each completed operation and the error
  that stopped the sequence, if any.
\<close>

datatype fs_op = Makedirs path | OpenW path | WriteText path str | Rename path path

definition fs_step :: "fs_op \<Rightarrow> filesystem \<Rightarrow> py_error + filesystem" where
  "fs_step a f =
     (case a of
        Makedirs d \<Rightarrow> makedirs d f
      | OpenW p \<Rightarrow> open_w p f
      | WriteText p s \<Rightarrow> Inr (write_text p s f)
      | Rename p q \<Rightarrow>
          (case f p of
             None \<Rightarrow> Inl FileNotFoundError
           | Some x \<Rightarrow> Inr (f(p := None, q \<mapsto> x))))"

fun fs_run :: "fs_op list \<Rightarrow> filesystem \<Rightarrow> filesystem list \<times> py_error option" where
  "fs_run [] f = ([], None)"
| "fs_run (a # as) f =
     (case fs_step a f of
        Inl e \<Rightarrow> ([], Some e)
      | Inr f1 \<Rightarrow> (let (ss, r) = fs_run as f1 in (f1 # ss, r)))"

definition observe :: "path \<Rightarrow> filesystem list \<Rightarrow> node option list" where
  "observe p ss = map (\<lambda>f. f p) ss"

section \<open>main\<close>

definition CONFIG_SERVER_URL :: str where
  "CONFIG_SERVER_URL = lit ''tcp://192.168.1.100:11020''"

definition ORGANIZATION_ID :: str where
  "ORGANIZATION_ID = lit ''550e8400-e29b-41d4-a716-446655440000''"

definition MACHINE_ID_FILE :: path where
  "MACHINE_ID_FILE = [lit ''var'', lit ''lib'', lit ''cortex_agent'', lit ''machine_id'']"

text \<open>
  What the \<open>else\<close> branch of the machine-id block does to the file system, in order:
  \<open>os.makedirs(os.path.dirname(file), exist_ok=True)\<close>, \<open>open(file, 'w')\<close>,
  \<open>f.write(machine_id)\<close>.
\<close>

definition persist_ops :: "path \<Rightarrow> str \<Rightarrow> fs_op list" where
  "persist_ops file mid = [Makedirs (dirname file), OpenW file, WriteText file mid]"

text \<open>
  The machine-id block of \<open>main\<close>: the file is read and stripped when the path exists,
  otherwise a UUID is drawn and written. An error of the file system ends the block.
\<close>

definition load_machine_id ::
  "'l runtime \<Rightarrow> path \<Rightarrow> 'l world \<Rightarrow> (py_error + str) \<times> 'l world" where
  "load_machine_id rt file w =
     (if path_exists (fs w) file then
        (case read_text (fs w) file of
           Inl e \<Rightarrow> (Inl e, w)
         | Inr content \<Rightarrow> (Inr (strip content), w))
      else
        (let (u, e) = uuid4 rt (ext w);
             mid = uuid_str u;
             (states, err) = fs_run (persist_ops file mid) (fs w);
             w1 = w\<lparr>ext := e, fs := last (fs w # states)\<rparr>
         in case err of
              Some x \<Rightarrow> (Inl x, w1)
            | None \<Rightarrow> (Inr mid, w1)))"

text \<open>
  \<open>main\<close> returns the exit status, or the error that escaped from the machine-id
  block. \<open>time.sleep\<close> has no counterpart here.
\<close>

definition main :: "'l runtime \<Rightarrow> 'l world \<Rightarrow> (py_error + int) \<times> 'l world" where
  "main rt w =
     (case load_machine_id rt MACHINE_ID_FILE w of
        (Inl e, w1) \<Rightarrow> (Inl e, w1)
      | (Inr mid, w1) \<Rightarrow>
          (let client = init;
               (ok, client1, w2) =
                 start rt (CONFIG_SERVER_URL @ lit ''/'' @ ORGANIZATION_ID) (Some mid) client w1
           in if ok then
                (let w3 = print [lit ''Web client connected successfully'',
                                 lit ''Waiting for admin approval and network configuration...'',
                                 lit ''Device will automatically join VPN networks when configured by admin'']
                                w2;
                     (info, w4) = get_network_info rt client1 w3;
                     w5 = (if truthy info
                           then print [lit ''Network Info: '' @ format_dict rt (the info)] w4
                           else w4)
                 in (Inr 0, w5))
              else (Inr 1, print [lit ''Failed to start web client''] w2)))"

section \<open>The Instance Registry of the library\<close>







section \<open>A concrete runtime for examples\<close>

text \<open>
  The path that \<open>urlparse\<close> returns for a URL of the form
  \<open>scheme://authority/path?query#fragment\<close>: the scheme up to the first colon is removed
  when it is a letter followed by letters, digits, \<open>+\<close>, \<open>-\<close> or \<open>.\<close>; after \<open>//\<close> the
  authority runs to the first \<open>/\<close>, \<open>?\<close> or \<open>#\<close>; the fragment and the query are cut off.
\<close>

definition ascii_alpha :: "nat \<Rightarrow> bool" where
  "ascii_alpha c = ((97 \<le> c \<and> c \<le> 122) \<or> (65 \<le> c \<and> c \<le> 90))"

definition scheme_char :: "nat \<Rightarrow> bool" where
  "scheme_char c = (ascii_alpha c \<or> (48 \<le> c \<and> c \<le> 57) \<or> c \<in> set (lit ''+-.''))"

definition generic_url_path :: "str \<Rightarrow> str" where
  "generic_url_path url =
     (let i = length (takeWhile (\<lambda>c. c \<noteq> 58) url);
          rest = (if 0 < i \<and> i < length url \<and> ascii_alpha (hd url) \<and>
                     list_all scheme_char (take i url)
                  then drop (Suc i) url else url);
          rest1 = (if take 2 rest = lit ''//''
                   then dropWhile (\<lambda>c. c \<notin> set (lit ''/?#'')) (drop 2 rest) else rest);
          rest2 = takeWhile (\<lambda>c. c \<noteq> 35) rest1
      in takeWhile (\<lambda>c. c \<noteq> 63) rest2)"

text \<open>
  A library without hidden state: \<open>cortex_start_web_client\<close> answers \<open>rc\<close> and the error
  accessor \<open>msg\<close>; stopping succeeds and the network information is always the same
  struct, whose hostname is a null pointer. Text is ASCII, so encoding and decoding
  leave the numbers as they are.
\<close>

definition demo_info :: CortexNetworkInfo where
  "demo_info =
     \<lparr>CortexNetworkInfo.instance_name = Some (lit ''org-123''),
      network_name = Some (lit ''alpha''),
      virtual_ipv4 = Some (lit ''10.0.0.2''),
      hostname = None,
      version = Some (lit ''1.0'')\<rparr>"

definition demo_uuid :: "128 word" where
  "demo_uuid = 0x550e8400e29b41d4a716446655440000"

definition demo_runtime :: "int \<Rightarrow> bytes option \<Rightarrow> unit runtime" where
  "demo_runtime rc msg =
     \<lparr>cortex_start_web_client = (\<lambda>config l. (rc, l)),
      cortex_stop_web_client = (\<lambda>name l. (0, l)),
      cortex_get_web_client_network_info = (\<lambda>name l. ((0, Some demo_info), l)),
      easytier_common_get_error_msg = (\<lambda>l. (msg, l)),
      uuid4 = (\<lambda>l. (demo_uuid, l)),
      urlparse_path = generic_url_path,
      encode = (\<lambda>s. s),
      decode = (\<lambda>b. b),
      format_dict = (\<lambda>d. concat (map snd d))\<rparr>"

definition demo_world :: "unit world" where
  "demo_world = \<lparr>ext = (), calls = [], stdout = [], fs = (\<lambda>p. None)\<rparr>"


section \<open>Basic facts\<close>

lemma new_calls_same: "new_calls w w = []"
  by (simp add: new_calls_def)

lemma new_calls_print: "new_calls w (print ls w1) = new_calls w w1"
  by (simp add: new_calls_def print_def)

lemma calls_print: "calls (print ls w) = calls w"
  by (simp add: print_def)

lemma stop_inactive:
  "\<not> truthy (instance_name self) \<Longrightarrow>
     stop rt self w = (False, self, print [lit ''No active instance to stop''] w)"
  by (simp add: stop_def)

lemma stop_active:
  assumes "instance_name self = Some n" "n \<noteq> []"
    and "cortex_stop_web_client rt (encode rt n) (ext w) = (rc, e)"
  shows "stop rt self w =
     (if rc = 0
      then (True, self\<lparr>instance_name := None\<rparr>,
            print [check_mark @ lit '' Web client stopped'']
              (w\<lparr>ext := e, calls := calls w @ [StopCall (encode rt n) rc]\<rparr>))
      else (False, self,
            print [cross_mark @ lit '' Failed to stop web client'']
              (w\<lparr>ext := e, calls := calls w @ [StopCall (encode rt n) rc]\<rparr>)))"
  using assms by (simp add: stop_def lib_stop_def)

lemma get_network_info_inactive:
  "\<not> truthy (instance_name self) \<Longrightarrow> get_network_info rt self w = (None, w)"
  by (simp add: get_network_info_def)

lemma get_network_info_active:
  assumes "instance_name self = Some n" "n \<noteq> []"
    and "cortex_get_web_client_network_info rt (encode rt n) (ext w) = ((rc, ptr), e)"
  shows "get_network_info rt self w =
     (if rc = 0 \<and> ptr \<noteq> None
      then Some [(''instance_name'', field_text rt (CortexNetworkInfo.instance_name (the ptr))),
                 (''network_name'', field_text rt (network_name (the ptr))),
                 (''virtual_ipv4'', field_text rt (virtual_ipv4 (the ptr))),
                 (''hostname'', field_text rt (hostname (the ptr))),
                 (''version'', field_text rt (version (the ptr)))]
      else None,
      w\<lparr>ext := e, calls := calls w @ [InfoCall (encode rt n) rc ptr]\<rparr>)"
  using assms by (simp add: get_network_info_def lib_info_def Let_def)


lemma start_unfold:
  assumes "resolve_machine_id rt mid w = (m, w1)"
    and "cortex_start_web_client rt
           \<lparr>config_server_url = Some (encode rt url), organization_id = None,
            machine_id = Some (encode rt m)\<rparr> (ext w1) = (rc, e)"
    and "easytier_common_get_error_msg rt e = (msg, e1)"
  shows "start rt url mid self w =
     (let cfg = \<lparr>config_server_url = Some (encode rt url), organization_id = None,
                 machine_id = Some (encode rt m)\<rparr>;
          name = strip_chars (lit ''/'') (urlparse_path rt url)
      in if rc = 0
      then (True, self\<lparr>instance_name := Some name\<rparr>,
            print [check_mark @ lit '' Web client started successfully'',
                   lit ''  Organization ID: '' @ name,
                   lit ''  Machine ID: '' @ m,
                   lit ''  Config Server: '' @ url]
              (w1\<lparr>ext := e, calls := calls w1 @ [StartCall cfg rc]\<rparr>))
      else (False, self,
            (if truthy msg
             then print [cross_mark @ lit '' Failed to start web client: '' @ decode rt (the msg)]
             else (\<lambda>x. x))
              (w1\<lparr>ext := e1, calls := calls w1 @ [StartCall cfg rc, ErrorMsgCall msg]\<rparr>)))"
  using assms by (simp add: start_def resolve_machine_id_def lib_start_def lib_error_msg_def Let_def)





lemma lit_org_nonempty: "lit ''org-123'' \<noteq> []"
  by (simp add: lit_def)

section \<open>Claims about stop\<close>

text \<open>
  C5. \<open>stop\<close> on a client that holds no instance name (never started, or already
  stopped; the test \<open>not self.instance_name\<close> also covers the empty name) returns
  \<open>False\<close> and has no effect beyond the printed line: the world is otherwise the same,
  no library call is issued and the recorded instance name is unchanged.
\<close>

theorem stop_unknown_instance:
  assumes "\<not> truthy (instance_name self)"
  shows "stop rt self w =
           (False, self, w\<lparr>stdout := stdout w @ [lit ''No active instance to stop'']\<rparr>)
         \<and> new_calls w (snd (snd (stop rt self w))) = []
         \<and> instance_name (fst (snd (stop rt self w))) = instance_name self"
  using assms by (simp add: stop_inactive print_def new_calls_def)

theorem stop_unknown_instance_witness:
  "\<not> truthy (instance_name init)
   \<and> stop (demo_runtime 0 None) init demo_world =
       (False, init, demo_world\<lparr>stdout := [lit ''No active instance to stop'']\<rparr>)
   \<and> new_calls demo_world (snd (snd (stop (demo_runtime 0 None) init demo_world))) = []"
  using stop_unknown_instance [of init "demo_runtime 0 None" demo_world]
  by (simp add: init_def demo_world_def new_calls_def)

section \<open>Claims about start\<close>



lemma demo_start_ok:
  "start (demo_runtime 0 msg) url (Some m) self demo_world =
     (True, self\<lparr>instance_name := Some (strip_chars (lit ''/'') (generic_url_path url))\<rparr>,
      \<lparr>ext = (),
       calls = [StartCall \<lparr>config_server_url = Some url, organization_id = None,
                           machine_id = Some m\<rparr> 0],
       stdout = [check_mark @ lit '' Web client started successfully'',
                 lit ''  Organization ID: '' @ strip_chars (lit ''/'') (generic_url_path url),
                 lit ''  Machine ID: '' @ m,
                 lit ''  Config Server: '' @ url],
       fs = (\<lambda>p. None)\<rparr>)"
  by (simp add: start_def resolve_machine_id_def lib_start_def demo_runtime_def demo_world_def
      print_def Let_def)




text \<open>
  C10. The struct that \<open>start\<close> passes to \<open>cortex_start_web_client\<close> carries the encoded
  URL and the encoded machine id, and its \<open>organization_id\<close> is the null pointer; no
  other start call is issued.
\<close>

theorem start_config:
  "\<exists>rc msg.
     new_calls w (snd (snd (start rt url mid self w))) =
       [StartCall \<lparr>config_server_url = Some (encode rt url), organization_id = None,
                   machine_id = Some (encode rt (fst (resolve_machine_id rt mid w)))\<rparr> rc]
     \<or> new_calls w (snd (snd (start rt url mid self w))) =
       [StartCall \<lparr>config_server_url = Some (encode rt url), organization_id = None,
                   machine_id = Some (encode rt (fst (resolve_machine_id rt mid w)))\<rparr> rc,
        ErrorMsgCall msg]"
proof -
  obtain m w1 where m: "resolve_machine_id rt mid w = (m, w1)" by (cases "resolve_machine_id rt mid w")
  let ?cfg = "\<lparr>config_server_url = Some (encode rt url), organization_id = None,
               machine_id = Some (encode rt m)\<rparr>"
  obtain rc e where rc: "cortex_start_web_client rt ?cfg (ext w1) = (rc, e)"
    by (cases "cortex_start_web_client rt ?cfg (ext w1)")
  obtain msg e1 where msg: "easytier_common_get_error_msg rt e = (msg, e1)"
    by (cases "easytier_common_get_error_msg rt e")
  have c: "calls w1 = calls w"
    using m by (auto simp: resolve_machine_id_def split: option.splits prod.splits)
  show ?thesis
    using start_unfold [OF m rc msg, of self] c m
    by (intro exI [of _ rc] exI [of _ msg]) (simp add: Let_def new_calls_def print_def)
qed

lemma calls_demo_world: "calls demo_world = []"
  by (simp add: demo_world_def)

theorem start_config_witness:
  "new_calls demo_world
     (snd (snd (start (demo_runtime 0 None) (lit ''tcp://host:11020/org-123'')
                  (Some (lit ''m-1'')) init demo_world))) =
     [StartCall \<lparr>config_server_url = Some (lit ''tcp://host:11020/org-123''),
                 organization_id = None, machine_id = Some (lit ''m-1'')\<rparr> 0]"
  using start_config [of demo_world "demo_runtime 0 None" "lit ''tcp://host:11020/org-123''"
      "Some (lit ''m-1'')" init]
  by (simp add: demo_start_ok new_calls_def calls_demo_world)

lemma field_text_null: "field_text rt None = []"
  by (simp add: field_text_def)

lemma field_text_empty: "field_text rt (Some []) = []"
  by (simp add: field_text_def)

lemma field_text_some: "b \<noteq> [] \<Longrightarrow> field_text rt (Some b) = decode rt b"
  by (simp add: field_text_def)

lemma get_network_info_Some:
  assumes "get_network_info rt self w = (Some d, w1)"
  shows "\<exists>n info.
           instance_name self = Some n \<and> n \<noteq> [] \<and>
           new_calls w w1 = [InfoCall (encode rt n) 0 (Some info)] \<and>
           d = [(''instance_name'', field_text rt (CortexNetworkInfo.instance_name info)),
                (''network_name'', field_text rt (network_name info)),
                (''virtual_ipv4'', field_text rt (virtual_ipv4 info)),
                (''hostname'', field_text rt (hostname info)),
                (''version'', field_text rt (version info))]"
proof (cases "instance_name self")
  case None
  then show ?thesis using assms by (simp add: get_network_info_inactive)
next
  case (Some n)
  show ?thesis
  proof (cases "n = []")
    case True
    then show ?thesis using assms Some by (simp add: get_network_info_inactive)
  next
    case False
    obtain rc ptr e where
      r: "cortex_get_web_client_network_info rt (encode rt n) (ext w) = ((rc, ptr), e)"
      by (cases "cortex_get_web_client_network_info rt (encode rt n) (ext w)") auto
    from assms get_network_info_active [OF Some False r]
    show ?thesis using Some False
      by (auto simp: new_calls_def split: if_splits)
  qed
qed

section \<open>Claims about get_network_info\<close>

text \<open>
  C9. A dictionary returned by \<open>get_network_info\<close> has exactly the five keys
  \<open>instance_name\<close>, \<open>network_name\<close>, \<open>virtual_ipv4\<close>, \<open>hostname\<close> and \<open>version\<close>, each bound
  to a string: the decoded C string of the struct the library returned, and the empty
  string where that field is a null pointer.
\<close>

theorem snapshot_fields_total:
  assumes "get_network_info rt self w = (Some d, w1)"
  shows "\<exists>n info.
           new_calls w w1 = [InfoCall n 0 (Some info)] \<and>
           map fst d = [''instance_name'', ''network_name'', ''virtual_ipv4'', ''hostname'',
                        ''version''] \<and>
           map snd d = map (field_text rt)
                         [CortexNetworkInfo.instance_name info, network_name info,
                          virtual_ipv4 info, hostname info, version info] \<and>
           (CortexNetworkInfo.instance_name info = None \<longrightarrow> map_of d ''instance_name'' = Some []) \<and>
           (network_name info = None \<longrightarrow> map_of d ''network_name'' = Some []) \<and>
           (virtual_ipv4 info = None \<longrightarrow> map_of d ''virtual_ipv4'' = Some []) \<and>
           (hostname info = None \<longrightarrow> map_of d ''hostname'' = Some []) \<and>
           (version info = None \<longrightarrow> map_of d ''version'' = Some [])"
proof -
  from get_network_info_Some [OF assms] obtain n info where
    c: "new_calls w w1 = [InfoCall (encode rt n) 0 (Some info)]" and
    d: "d = [(''instance_name'', field_text rt (CortexNetworkInfo.instance_name info)),
             (''network_name'', field_text rt (network_name info)),
             (''virtual_ipv4'', field_text rt (virtual_ipv4 info)),
             (''hostname'', field_text rt (hostname info)),
             (''version'', field_text rt (version info))]"
    by blast
  show ?thesis
    by (rule exI [of _ "encode rt n"], rule exI [of _ info]) (simp add: c d field_text_null)
qed

lemma demo_info_active:
  "n \<noteq> [] \<Longrightarrow>
   get_network_info (demo_runtime rc msg) \<lparr>instance_name = Some n\<rparr> w =
     (Some [(''instance_name'', lit ''org-123''),
            (''network_name'', lit ''alpha''),
            (''virtual_ipv4'', lit ''10.0.0.2''),
            (''hostname'', []),
            (''version'', lit ''1.0'')],
      w\<lparr>ext := (), calls := calls w @ [InfoCall n 0 (Some demo_info)]\<rparr>)"
  by (simp add: get_network_info_def lib_info_def demo_runtime_def demo_info_def field_text_def
      lit_def Let_def)

theorem snapshot_fields_total_witness:
  "get_network_info (demo_runtime 0 None) \<lparr>instance_name = Some (lit ''org-123'')\<rparr> demo_world =
     (Some [(''instance_name'', lit ''org-123''),
            (''network_name'', lit ''alpha''),
            (''virtual_ipv4'', lit ''10.0.0.2''),
            (''hostname'', []),
            (''version'', lit ''1.0'')],
      demo_world\<lparr>ext := (), calls := calls demo_world @ [InfoCall (lit ''org-123'') 0 (Some demo_info)]\<rparr>)
   \<and> hostname demo_info = None
   \<and> map_of [(''instance_name'', lit ''org-123''),
            (''network_name'', lit ''alpha''),
            (''virtual_ipv4'', lit ''10.0.0.2''),
            (''hostname'', []),
            (''version'', lit ''1.0'')] ''hostname'' = Some []"
  using snapshot_fields_total [OF demo_info_active [of "lit ''org-123''" 0 None demo_world]]
  by (simp add: demo_info_active lit_org_nonempty demo_info_def)




section \<open>Sequences of method calls\<close>


lemma start_failed_keeps_client:
  "fst (start rt url mid self w) = False \<Longrightarrow> fst (snd (start rt url mid self w)) = self"
  by (simp add: start_def Let_def split: prod.splits if_splits)









lemma demo_stop_active:
  "n \<noteq> [] \<Longrightarrow>
   stop (demo_runtime rc msg) \<lparr>instance_name = Some n\<rparr> w =
     (True, \<lparr>instance_name = None\<rparr>,
      print [check_mark @ lit '' Web client stopped'']
        (w\<lparr>ext := (), calls := calls w @ [StopCall n 0]\<rparr>))"
  by (simp add: stop_def lib_stop_def demo_runtime_def)




lemma run_inactive:
  "instance_name self = None \<Longrightarrow>
     list_all inactive (takeWhile (\<lambda>x. \<not> started x) (fst (run rt cs self w)))"
proof (induction cs arbitrary: self w)
  case Nil
  then show ?case by simp
next
  case (Cons c cs)
  have nt: "\<not> truthy (instance_name self)"
    using Cons.prems by simp
  show ?case
  proof (cases c)
    case (Start url mid)
    obtain b s1 v1 where s: "start rt url mid self w = (b, s1, v1)"
      by (cases "start rt url mid self w")
    show ?thesis
    proof (cases b)
      case True
      then show ?thesis using Start s by (simp add: exec_def case_prod_beta)
    next
      case False
      then have "s1 = self"
        using start_failed_keeps_client [of rt url mid self w] s by simp
      then have "instance_name s1 = None" using Cons.prems by simp
      from Cons.IH [OF this, of v1] show ?thesis
        using Start s False by (simp add: exec_def case_prod_beta)
    qed
  next
    case Stop
    from Cons.IH [OF Cons.prems, of "print [lit ''No active instance to stop''] w"]
    show ?thesis
      using Stop by (simp add: exec_def stop_inactive [OF nt] case_prod_beta)
  next
    case GetNetworkInfo
    from Cons.IH [OF Cons.prems, of w]
    show ?thesis
      using GetNetworkInfo
      by (simp add: exec_def get_network_info_inactive [OF nt] case_prod_beta)
  qed
qed

lemma stop_True:
  assumes "stop rt self w = (True, self1, w1)"
  shows "truthy (instance_name self) \<and> instance_name self1 = None
         \<and> new_calls w w1 = [StopCall (encode rt (the (instance_name self))) 0]"
proof -
  have t: "truthy (instance_name self)"
    using assms stop_inactive [of self rt w] by auto
  then obtain n where n: "instance_name self = Some n" "n \<noteq> []"
    by (cases "instance_name self") auto
  obtain rc e where r: "cortex_stop_web_client rt (encode rt n) (ext w) = (rc, e)"
    by (cases "cortex_stop_web_client rt (encode rt n) (ext w)")
  show ?thesis
    using stop_active [OF n r] assms n
    by (auto simp: new_calls_def print_def split: if_splits)
qed

text \<open>
  C6. When \<open>stop\<close> returns \<open>True\<close> the library answered 0 to the one stop call and the
  instance name is \<open>None\<close> afterwards; in every later sequence of method calls, up to the
  first \<open>start\<close> that succeeds, each \<open>stop\<close> returns \<open>False\<close> and each \<open>get_network_info\<close>
  returns \<open>None\<close>.
\<close>

theorem stop_clears_instance_name:
  assumes "stop rt self w = (True, self1, w1)"
  shows "new_calls w w1 = [StopCall (encode rt (the (instance_name self))) 0]
         \<and> instance_name self1 = None
         \<and> (\<forall>cs v. list_all inactive
                     (takeWhile (\<lambda>x. \<not> started x) (fst (run rt cs self1 v))))"
  using stop_True [OF assms] run_inactive [of self1 rt] by blast

theorem stop_clears_instance_name_witness:
  "stop (demo_runtime 0 None) \<lparr>instance_name = Some (lit ''org-123'')\<rparr> demo_world =
     (True, \<lparr>instance_name = None\<rparr>,
      print [check_mark @ lit '' Web client stopped'']
        (demo_world\<lparr>ext := (), calls := calls demo_world @ [StopCall (lit ''org-123'') 0]\<rparr>))
   \<and> list_all inactive
       (takeWhile (\<lambda>x. \<not> started x)
          (fst (run (demo_runtime 0 None) [GetNetworkInfo, Stop] \<lparr>instance_name = None\<rparr>
                  demo_world)))
   \<and> fst (run (demo_runtime 0 None) [GetNetworkInfo, Stop] \<lparr>instance_name = None\<rparr>
            demo_world) = [(GetNetworkInfo, Info None), (Stop, Returned False)]"
proof -
  have s: "stop (demo_runtime 0 None) \<lparr>instance_name = Some (lit ''org-123'')\<rparr> demo_world =
     (True, \<lparr>instance_name = None\<rparr>,
      print [check_mark @ lit '' Web client stopped'']
        (demo_world\<lparr>ext := (), calls := calls demo_world @ [StopCall (lit ''org-123'') 0]\<rparr>))"
    by (simp add: demo_stop_active lit_org_nonempty)
  have r: "fst (run (demo_runtime 0 None) [GetNetworkInfo, Stop] \<lparr>instance_name = None\<rparr>
            demo_world) = [(GetNetworkInfo, Info None), (Stop, Returned False)]"
    by (simp add: exec_def get_network_info_inactive stop_inactive)
  from stop_clears_instance_name [OF s]
  have "list_all inactive
       (takeWhile (\<lambda>x. \<not> started x)
          (fst (run (demo_runtime 0 None) [GetNetworkInfo, Stop] \<lparr>instance_name = None\<rparr>
                  demo_world)))"
    by blast
  with s r show ?thesis by blast
qed

section \<open>The Instance Registry\<close>





end
